theory Spec2Isabelle
  imports Complex_Main
begin

section \<open>NumPy arrays and Python values\<close>

text \<open>
  The behavioural vectors of the repository are one-dimensional NumPy arrays of floats.
  They are modelled as lists of reals. The conversion of the enrollment batch to
  single precision, and the single-precision arithmetic of the mean and standard
  deviation taken from it, are modelled by \<open>float32\<close> below; the rounding of the
  arithmetic on scores and stored profiles, infinities and NaN are outside the model.
  Every exception the modelled code can raise is a value of \<open>error\<close>.
\<close>

datatype error = TypeError | ValueError | IndexError | KeyError | RuntimeError

type_synonym vec = "real list"

text \<open>
  An elementwise binary operation on two one-dimensional arrays. NumPy (and torch)
  broadcast an array of length one against the other operand and raise on any other
  mismatch of the lengths.
\<close>

definition np_binop :: "(real \<Rightarrow> real \<Rightarrow> real) \<Rightarrow> vec \<Rightarrow> vec \<Rightarrow> error + vec" where
  "np_binop f a b =
     (if length a = length b then Inr (map2 f a b)
      else if length a = 1 then Inr (map (f (hd a)) b)
      else if length b = 1 then Inr (map (\<lambda>x. f x (hd b)) a)
      else Inl ValueError)"

definition count_nonzero :: "vec \<Rightarrow> nat" where
  "count_nonzero v = length (filter (\<lambda>x. x \<noteq> 0) v)"

text \<open>\<open>np.mean\<close> of a one-dimensional array (NaN on the empty array, which no caller
  below passes once its guards have been met).\<close>

definition np_mean :: "vec \<Rightarrow> real" where
  "np_mean v = sum_list v / real (length v)"

text \<open>
  Conversion to \<open>np.float32\<close>: the nearest value with a 24-bit significand, ties to
  the even significand, with the spacing of the subnormal numbers below the exponent
  -126.
  Overflow to infinity is outside the model. \<open>ulp32 e\<close> is the spacing of the values
  in the binade of exponent \<open>e\<close>.
\<close>

definition ulp32 :: "int \<Rightarrow> real" where
  "ulp32 e = (if e \<ge> 23 then 2 ^ nat (e - 23) else 1 / 2 ^ nat (23 - e))"

definition round_half_even :: "real \<Rightarrow> int" where
  "round_half_even q =
     (let f = \<lfloor>q\<rfloor> in
      if q - of_int f < 1 / 2 then f
      else if q - of_int f > 1 / 2 then f + 1
      else if even f then f else f + 1)"

definition float32 :: "real \<Rightarrow> real" where
  "float32 x =
     (if x = 0 then 0
      else (let e = max \<lfloor>log 2 \<bar>x\<bar>\<rfloor> (- 126)
            in of_int (round_half_even (x / ulp32 e)) * ulp32 e))"

text \<open>
  \<open>np.add.reduce\<close> along the batch axis of a \<open>float32\<close> array: the rows are added
  one after the other and every sum is rounded to \<open>float32\<close>.
\<close>

fun sum32 :: "vec \<Rightarrow> real" where
  "sum32 [] = 0"
| "sum32 (x # xs) = foldl (\<lambda>a y. float32 (a + y)) x xs"

text \<open>\<open>np.mean\<close> of a \<open>float32\<close> array: the rounded sum, divided and rounded.\<close>

definition mean32 :: "vec \<Rightarrow> real" where
  "mean32 c = float32 (sum32 c / real (length c))"

text \<open>
  \<open>np.std\<close> of a \<open>float32\<close> array with its default \<open>ddof=0\<close>: the deviations from
  the mean, their squares, the mean of the squares and its root, each operation
  rounded to \<open>float32\<close>.
\<close>

definition std32 :: "vec \<Rightarrow> real" where
  "std32 c =
     (let d = map (\<lambda>x. float32 (x - mean32 c)) c;
          sq = map (\<lambda>y. float32 (y * y)) d
      in float32 (sqrt (float32 (sum32 sq / real (length c)))))"

text \<open>Indexing a one-dimensional array with a non-negative literal index.\<close>

definition np_get :: "vec \<Rightarrow> nat \<Rightarrow> error + real" where
  "np_get v i = (if i < length v then Inr (v ! i) else Inl IndexError)"

text \<open>The values stored in the result dictionaries of the tiers.\<close>

datatype pyval = Str string | Num real | StrList "string list"

type_synonym pydict = "(string \<times> pyval) list"

text \<open>\<open>d.get(k, default)\<close> on a dictionary.\<close>

definition dict_get :: "pydict \<Rightarrow> string \<Rightarrow> pyval \<Rightarrow> pyval" where
  "dict_get d k dflt = (case map_of d k of None \<Rightarrow> dflt | Some x \<Rightarrow> x)"

section \<open>Tier 1: \<open>tier1.py\<close>\<close>

record tier1 =
  age :: int
  alpha_mean :: real
  alpha_std :: real
  D_ref :: "vec option"
  D_std :: "vec option"
  is_enrolled :: bool
  idle_count :: int
  idle_threshold :: int

text \<open>\<open>Tier1Authenticator.__init__\<close> with its default learning rates.\<close>

definition Tier1Authenticator :: "int \<Rightarrow> tier1" where
  "Tier1Authenticator a =
     \<lparr>age = a, alpha_mean = 0.05, alpha_std = 0.02, D_ref = None, D_std = None,
      is_enrolled = False, idle_count = 0, idle_threshold = 3\<rparr>"

text \<open>
  The location dictionary handed to Tier 1. The four coordinate pairs are read with
  \<open>loc_data[...]\<close>; \<open>is_traveling\<close> is read by the orchestrator with \<open>.get\<close> and may
  be absent.
\<close>

record location =
  last_login :: "real \<times> real"
  current_session :: "real \<times> real"
  prev_30s :: "real \<times> real"
  latest_30s :: "real \<times> real"
  is_traveling :: "bool option"

definition radians :: "real \<Rightarrow> real" where
  "radians x = x * pi / 180"

definition arctan2 :: "real \<Rightarrow> real \<Rightarrow> real" where
  "arctan2 y x =
     (if x > 0 then arctan (y / x)
      else if x < 0 then (if y \<ge> 0 then arctan (y / x) + pi else arctan (y / x) - pi)
      else if y > 0 then pi / 2
      else if y < 0 then - (pi / 2)
      else 0)"

definition haversine :: "real \<times> real \<Rightarrow> real \<times> real \<Rightarrow> real" where
  "haversine p1 p2 =
     (let lat1 = fst p1; lon1 = snd p1; lat2 = fst p2; lon2 = snd p2;
          dlat = radians (lat2 - lat1); dlon = radians (lon2 - lon1);
          a = (sin (dlat / 2)) ^ 2
              + cos (radians lat1) * cos (radians lat2) * (sin (dlon / 2)) ^ 2
      in 2 * arctan2 (sqrt a) (sqrt (1 - a)) * 6371)"

text \<open>
  \<open>enroll\<close> with the default \<open>min_samples=5\<close> (no caller passes another value). The
  batch becomes a two-dimensional \<open>float32\<close> array, which raises when the rows differ
  in length; mean and standard deviation are taken column by column (\<open>axis=0\<close>) in
  \<open>float32\<close>, and \<open>np.maximum\<close> compares with the \<open>float32\<close> value of \<open>1e-2\<close>. Nothing
  has been assigned when the conversion raises.
\<close>

definition column :: "vec list \<Rightarrow> nat \<Rightarrow> vec" where
  "column rows j = map (\<lambda>r. r ! j) rows"

definition enroll :: "tier1 \<Rightarrow> vec list \<Rightarrow> error + tier1" where
  "enroll t enrollment_vectors =
     (if length enrollment_vectors < 5 then Inr t
      else if \<not> list_all (\<lambda>v. length v = length (hd enrollment_vectors)) enrollment_vectors
      then Inl ValueError
      else
        (let enrollment_data = map (map float32) enrollment_vectors;
             cols = map (column enrollment_data) [0 ..< length (hd enrollment_data)]
         in Inr (t\<lparr>D_ref := Some (map mean32 cols),
                   D_std := Some (map (\<lambda>c. max (std32 c) (float32 0.01)) cols),
                   is_enrolled := True\<rparr>)))"

text \<open>
  The expression \<open>np.abs((v - self.D_ref) / (self.D_std + 1e-8))\<close>, which both
  \<open>_compute_anomaly_score\<close> and \<open>_dynamic_rule_checks\<close> evaluate. The left operand of
  the division is evaluated first.
\<close>

definition z_scores_of :: "tier1 \<Rightarrow> vec \<Rightarrow> error + vec" where
  "z_scores_of t v =
     (case D_ref t of
        None \<Rightarrow> Inl TypeError
      | Some r \<Rightarrow>
          (case np_binop (-) v r of
             Inl e \<Rightarrow> Inl e
           | Inr d \<Rightarrow>
               (case D_std t of
                  None \<Rightarrow> Inl TypeError
                | Some s \<Rightarrow>
                    (case np_binop (/) d (map (\<lambda>x. x + 1 / 10 ^ 8) s) of
                       Inl e \<Rightarrow> Inl e
                     | Inr q \<Rightarrow> Inr (map abs q)))))"

text \<open>\<open>_compute_anomaly_score\<close>: \<open>None\<close> stands for the pair \<open>(None, None)\<close>.\<close>

definition compute_anomaly_score :: "tier1 \<Rightarrow> vec \<Rightarrow> error + (real \<times> vec) option" where
  "compute_anomaly_score t v =
     (if count_nonzero v < 4 then Inr None
      else
        (case z_scores_of t v of
           Inl e \<Rightarrow> Inl e
         | Inr z \<Rightarrow>
             Inr (Some (if age t \<ge> 60 then np_mean z * 1.15 else np_mean z, z))))"

text \<open>
  One behaviour check of \<open>_dynamic_rule_checks\<close>:
  \<open>if v[i] > 0 and z_scores[i] > 3.0: flags.append(msg)\<close>.
\<close>

definition feature_flag :: "vec \<Rightarrow> vec \<Rightarrow> nat \<Rightarrow> string \<Rightarrow> error + string list" where
  "feature_flag v z i msg =
     (case np_get v i of
        Inl e \<Rightarrow> Inl e
      | Inr x \<Rightarrow>
          if x > 0 then
            (case np_get z i of
               Inl e \<Rightarrow> Inl e
             | Inr zi \<Rightarrow> Inr (if zi > 3 then [msg] else []))
          else Inr [])"

text \<open>The local \<open>dist_login\<close> of \<open>_dynamic_rule_checks\<close>, read before the mutation.\<close>

definition dist_login :: "location \<Rightarrow> real" where
  "dist_login loc_data = haversine (last_login loc_data) (current_session loc_data)"

text \<open>
  \<open>_dynamic_rule_checks\<close> mutates the caller's location dictionary, so the model
  returns the dictionary as it is when the method returns or raises, together with the
  outcome.
\<close>

definition dynamic_rule_checks ::
  "tier1 \<Rightarrow> vec \<Rightarrow> location \<Rightarrow> location \<times> (error + string list \<times> real)" where
  "dynamic_rule_checks t v loc_data =
     (let flags1 = (if dist_login loc_data > 10 then [''Unusual login distance (>10km)''] else []);
          loc' = loc_data\<lparr>last_login := current_session loc_data\<rparr>;
          speed_kmh = haversine (prev_30s loc') (latest_30s loc') / (30 / 3600);
          flags2 = flags1 @ (if speed_kmh > 120 then [''Abnormal session speed''] else [])
      in case z_scores_of t v of
           Inl e \<Rightarrow> (loc', Inl e)
         | Inr z \<Rightarrow>
             (case feature_flag v z 0 ''Suspicious accuracy deviation'' of
                Inl e \<Rightarrow> (loc', Inl e)
              | Inr f0 \<Rightarrow>
                  (case feature_flag v z 1 ''Suspicious flight time deviation'' of
                     Inl e \<Rightarrow> (loc', Inl e)
                   | Inr f1 \<Rightarrow>
                       (case feature_flag v z 5 ''Suspicious error rate deviation'' of
                          Inl e \<Rightarrow> (loc', Inl e)
                        | Inr f5 \<Rightarrow> (loc', Inr (flags2 @ f0 @ f1 @ f5, speed_kmh))))))"

text \<open>
  \<open>_update_profile\<close>: the new reference is assigned before the deviation is computed,
  so the deviation is taken against the new reference; an exception raised after that
  assignment leaves the new reference in place.
\<close>

definition update_profile :: "tier1 \<Rightarrow> vec \<Rightarrow> tier1 \<times> (error + unit)" where
  "update_profile t v =
     (case compute_anomaly_score t v of
        Inl e \<Rightarrow> (t, Inl e)
      | Inr None \<Rightarrow> (t, Inr ())
      | Inr (Some (score, z)) \<Rightarrow>
          if score \<ge> 1.5 \<or> count_nonzero v < 6 then (t, Inr ())
          else
            (case D_ref t of
               None \<Rightarrow> (t, Inl TypeError)
             | Some r \<Rightarrow>
                 (case np_binop (+) (map (\<lambda>x. alpha_mean t * x) v)
                                    (map (\<lambda>x. (1 - alpha_mean t) * x) r) of
                    Inl e \<Rightarrow> (t, Inl e)
                  | Inr r' \<Rightarrow>
                      (let t1 = t\<lparr>D_ref := Some r'\<rparr> in
                       case np_binop (-) v r' of
                         Inl e \<Rightarrow> (t1, Inl e)
                       | Inr d \<Rightarrow>
                           (case D_std t1 of
                              None \<Rightarrow> (t1, Inl TypeError)
                            | Some s \<Rightarrow>
                                (case np_binop (+) (map (\<lambda>x. alpha_std t1 * x) (map abs d))
                                                   (map (\<lambda>x. (1 - alpha_std t1) * x) s) of
                                   Inl e \<Rightarrow> (t1, Inl e)
                                 | Inr s' \<Rightarrow> (t1\<lparr>D_std := Some s'\<rparr>, Inr ())))))))"

text \<open>The dictionary \<open>authenticate\<close> returns for an enrolled user.\<close>

definition t1_result :: "string \<Rightarrow> string list \<Rightarrow> pydict" where
  "t1_result decision flags = [(''decision'', Str decision), (''flags'', StrList flags)]"

text \<open>
  \<open>authenticate\<close>: the anomaly score and the rule checks are both computed before
  the decision is taken. The model returns the authenticator and the location
  dictionary as they are when the method returns or raises.
\<close>

definition authenticate ::
  "tier1 \<Rightarrow> vec \<Rightarrow> location \<Rightarrow> tier1 \<times> location \<times> (error + pydict)" where
  "authenticate t v loc_data =
     (if \<not> is_enrolled t
      then (t, loc_data, Inr [(''decision'', Str ''ERROR: User is not enrolled.'')])
      else
        (case compute_anomaly_score t v of
           Inl e \<Rightarrow> (t, loc_data, Inl e)
         | Inr sc \<Rightarrow>
             (case dynamic_rule_checks t v loc_data of
                (loc', Inl e) \<Rightarrow> (t, loc', Inl e)
              | (loc', Inr (flags, speed)) \<Rightarrow>
                  (case sc of
                     None \<Rightarrow>
                       (t\<lparr>idle_count := idle_count t + 1\<rparr>, loc',
                        Inr (t1_result ''SKIP INTERVAL (low activity)'' flags))
                   | Some (an_score, z) \<Rightarrow>
                       (let t0 = t\<lparr>idle_count := 0\<rparr> in
                        if an_score < 0.8 \<and> flags = [] then
                          (case update_profile t0 v of
                             (t1, Inl e) \<Rightarrow> (t1, loc', Inl e)
                           | (t1, Inr u) \<Rightarrow> (t1, loc', Inr (t1_result ''PASS'' flags)))
                        else if an_score \<ge> 2.0 \<or> length flags > 1 then
                          (t0, loc', Inr (t1_result ''ESCALATE TO T3 (High Anomaly)'' flags))
                        else
                          (t0, loc', Inr (t1_result ''ESCALATE TO T2 (Medium Anomaly)'' flags)))))))"

section \<open>Tier 3: \<open>tier3.py\<close>\<close>

text \<open>
  The learned models are external to the decision engine and enter as parameters:
  \<open>gnn_probs\<close> is the sigmoid of the graph model's logits, read at a user index;
  \<open>drift_tracker\<close> returns the predicted mean and log-variance for a history
  sequence; \<open>similarity_engine\<close> is the pairwise scorer of Tier 3; \<open>t2_model\<close> and
  \<open>scaler\<close> are the similarity scorer and the normalisation of Tier 2.
\<close>

record models =
  gnn_probs :: "nat \<Rightarrow> real"
  drift_tracker :: "vec list \<Rightarrow> vec \<times> vec"
  similarity_engine :: "vec \<Rightarrow> vec \<Rightarrow> real"
  t2_model :: "vec \<Rightarrow> vec \<Rightarrow> vec \<Rightarrow> real"
  scaler :: "vec \<Rightarrow> vec"

record tier3 =
  user_id_to_idx :: "string \<rightharpoonup> nat"
  user_history :: "string \<rightharpoonup> vec list"

text \<open>\<open>deque(xs, maxlen=20)\<close> keeps the last 20 elements; \<open>append\<close> evicts the oldest.\<close>

definition deque20 :: "'a list \<Rightarrow> 'a list" where
  "deque20 xs = drop (length xs - 20) xs"

definition deque_append :: "'a list \<Rightarrow> 'a \<Rightarrow> 'a list" where
  "deque_append xs x = deque20 (xs @ [x])"

definition enroll_user_history :: "tier3 \<Rightarrow> string \<Rightarrow> vec list \<Rightarrow> tier3" where
  "enroll_user_history s uid historical_vectors =
     s\<lparr>user_history := (user_history s)(uid \<mapsto> deque20 historical_vectors)\<rparr>"

definition get_gnn_risk :: "models \<Rightarrow> tier3 \<Rightarrow> string \<Rightarrow> real" where
  "get_gnn_risk M s uid =
     (case user_id_to_idx s uid of None \<Rightarrow> 0.1 | Some user_idx \<Rightarrow> gnn_probs M user_idx)"

text \<open>An elementwise torch operation: a shape mismatch raises \<open>RuntimeError\<close>.\<close>

definition torch_binop :: "(real \<Rightarrow> real \<Rightarrow> real) \<Rightarrow> vec \<Rightarrow> vec \<Rightarrow> error + vec" where
  "torch_binop f a b = (case np_binop f a b of Inl e \<Rightarrow> Inl RuntimeError | Inr r \<Rightarrow> Inr r)"

text \<open>
  \<open>0.5 * (log_var + torch.pow(torch.tensor(v_test) - mu, 2) / torch.exp(log_var))\<close>
\<close>

definition gaussian_nll :: "vec \<Rightarrow> vec \<Rightarrow> vec \<Rightarrow> error + vec" where
  "gaussian_nll mu log_var v_test =
     (case torch_binop (-) v_test mu of
        Inl e \<Rightarrow> Inl e
      | Inr d \<Rightarrow>
          (case torch_binop (/) (map (\<lambda>x. x ^ 2) d) (map exp log_var) of
             Inl e \<Rightarrow> Inl e
           | Inr q \<Rightarrow>
               (case torch_binop (+) log_var q of
                  Inl e \<Rightarrow> Inl e
                | Inr s \<Rightarrow> Inr (map (\<lambda>x. 0.5 * x) s))))"

text \<open>
  The drift signal of \<open>Tier3Authenticator.authenticate\<close>: 0.1 unless the user has a
  non-empty history of more than 5 entries. The history becomes a two-dimensional
  array, which raises when its entries differ in length.
\<close>

definition drift_anomaly_of :: "models \<Rightarrow> tier3 \<Rightarrow> string \<Rightarrow> vec \<Rightarrow> error + real" where
  "drift_anomaly_of M s uid v_test =
     (case user_history s uid of
        None \<Rightarrow> Inr 0.1
      | Some history \<Rightarrow>
          if history \<noteq> [] \<and> length history > 5 then
            (if \<not> list_all (\<lambda>h. length h = length (hd history)) history then Inl ValueError
             else
               (case drift_tracker M history of
                  (mu, log_var) \<Rightarrow>
                    (case gaussian_nll mu log_var v_test of
                       Inl e \<Rightarrow> Inl e
                     | Inr nll \<Rightarrow> Inr (min (np_mean nll / 5.0) 1.0))))
          else Inr 0.1)"

text \<open>
  \<open>Tier3Authenticator.authenticate\<close>. The history is appended to as the last step,
  so an exception leaves the state as it was.
\<close>

definition t3_authenticate ::
  "models \<Rightarrow> tier3 \<Rightarrow> string \<Rightarrow> vec \<Rightarrow> vec \<Rightarrow> error + tier3 \<times> pydict" where
  "t3_authenticate M s uid v_test v_ref =
     (let gnn_risk = get_gnn_risk M s uid in
      case drift_anomaly_of M s uid v_test of
        Inl e \<Rightarrow> Inl e
      | Inr drift_anomaly \<Rightarrow>
          (let sim_score = similarity_engine M v_ref v_test;
               similarity_risk = 1.0 - sim_score;
               final_score = gnn_risk * 0.5 + drift_anomaly * 0.2 + similarity_risk * 0.3;
               decision = (if final_score > 0.6 then ''BLOCK - HIGH RISK''
                           else if final_score > 0.35 then ''MANUAL REVIEW''
                           else ''PASS (T3 Verified)'');
               s' = (case user_history s uid of
                       None \<Rightarrow> s
                     | Some h \<Rightarrow> s\<lparr>user_history := (user_history s)(uid \<mapsto> deque_append h v_test)\<rparr>)
           in Inr (s', [(''decision'', Str decision), (''final_score'', Num final_score)])))"

section \<open>The orchestrator: \<open>auth_orchestrator.py\<close>\<close>

record orchestrator =
  user_profiles :: "string \<rightharpoonup> tier1"
  t3 :: tier3

record request =
  user_id :: string
  request_age :: int
  behavioral_vector :: vec
  location_info :: location

text \<open>Python's \<open>sub in s\<close> on strings.\<close>

fun is_prefix :: "string \<Rightarrow> string \<Rightarrow> bool" where
  "is_prefix [] ys = True"
| "is_prefix (x # xs) [] = False"
| "is_prefix (x # xs) (y # ys) = (x = y \<and> is_prefix xs ys)"

fun str_contains :: "string \<Rightarrow> string \<Rightarrow> bool" where
  "str_contains sub [] = (sub = [])"
| "str_contains sub (c # cs) = (is_prefix sub (c # cs) \<or> str_contains sub cs)"

definition enroll_user ::
  "orchestrator \<Rightarrow> string \<Rightarrow> int \<Rightarrow> vec list \<Rightarrow> vec list \<Rightarrow> error + orchestrator" where
  "enroll_user st uid a t1_samples t3_history =
     (case user_profiles st uid of
        Some p \<Rightarrow> Inr st
      | None \<Rightarrow>
          (case enroll (Tier1Authenticator a) t1_samples of
             Inl e \<Rightarrow> Inl e
           | Inr t1_authenticator \<Rightarrow>
               Inr (st\<lparr>t3 := enroll_user_history (t3 st) uid t3_history,
                       user_profiles := (user_profiles st)(uid \<mapsto> t1_authenticator)\<rparr>)))"

definition linalg_norm :: "vec \<Rightarrow> real" where
  "linalg_norm v = sqrt (sum_list (map (\<lambda>x. x ^ 2) v))"

text \<open>
  \<open>_create_context_vector\<close>. The reference is \<open>None\<close> for a profile that was never
  enrolled, and the Tier 1 score arrives as whatever \<open>t1_result.get('score', 1.5)\<close>
  gave.
\<close>

definition create_context_vector ::
  "vec option \<Rightarrow> vec \<Rightarrow> int \<Rightarrow> pyval \<Rightarrow> location \<Rightarrow> error + vec" where
  "create_context_vector v_ref v_test a t1_score loc =
     (let traveling = (case is_traveling loc of None \<Rightarrow> False | Some b \<Rightarrow> b) in
      case v_ref of
        None \<Rightarrow> Inl TypeError
      | Some r \<Rightarrow>
          (case np_binop (-) r v_test of
             Inl e \<Rightarrow> Inl e
           | Inr d \<Rightarrow>
               (let distance = linalg_norm d / (linalg_norm r + 1 / 10 ^ 8) in
                case t1_score of
                  Num sc \<Rightarrow>
                    Inr [distance, real_of_int a / 100.0, sc, (if traveling then 1 else 0), 0.0]
                | _ \<Rightarrow> Inl TypeError)))"

text \<open>
  The part of \<open>authenticate_session\<close> from \<open># --- Escalate to T3 ---\<close> on, for a
  decision label that contains \<open>ESCALATE TO T3\<close>.
\<close>

definition escalate_t3 ::
  "models \<Rightarrow> orchestrator \<Rightarrow> string \<Rightarrow> vec \<Rightarrow> vec option \<Rightarrow> orchestrator \<times> (error + pydict)" where
  "escalate_t3 M st uid v_test v_ref =
     (case v_ref of
        None \<Rightarrow> (st, Inl RuntimeError)
      | Some r \<Rightarrow>
          (case t3_authenticate M (t3 st) uid v_test r of
             Inl e \<Rightarrow> (st, Inl e)
           | Inr (s', final_t3) \<Rightarrow> (st\<lparr>t3 := s'\<rparr>, Inr ((''tier'', Str ''T3'') # final_t3))))"

text \<open>
  The part of \<open>authenticate_session\<close> under \<open># --- Escalate to T2 ---\<close>, for a
  decision label that contains \<open>ESCALATE TO T2\<close>: a similarity of at least 0.8 is the
  terminal PASS of Tier 2, anything below goes on to Tier 3.
\<close>

definition escalate_t2 ::
  "models \<Rightarrow> orchestrator \<Rightarrow> string \<Rightarrow> int \<Rightarrow> vec \<Rightarrow> vec option \<Rightarrow> pydict \<Rightarrow> location
     \<Rightarrow> orchestrator \<times> (error + pydict)" where
  "escalate_t2 M st uid a v_test v_ref t1_res loc =
     (case create_context_vector v_ref v_test a (dict_get t1_res ''score'' (Num 1.5)) loc of
        Inl e \<Rightarrow> (st, Inl e)
      | Inr context_vec \<Rightarrow>
          (case v_ref of
             None \<Rightarrow> (st, Inl TypeError)
           | Some r \<Rightarrow>
               (let t2_score = t2_model M (scaler M r) (scaler M v_test) context_vec in
                if t2_score \<ge> 0.8
                then (st, Inr [(''tier'', Str ''T2''), (''decision'', Str ''PASS''),
                               (''score'', Num t2_score)])
                else escalate_t3 M st uid v_test v_ref)))"

text \<open>
  The step \<open># Ensure user is enrolled\<close> of \<open>authenticate_session\<close>: a user without a
  profile is enrolled with the incoming sample, replicated 5 times for Tier 1 and 15
  times for the Tier 3 history.
\<close>

definition ensure_enrolled :: "orchestrator \<Rightarrow> request \<Rightarrow> error + orchestrator" where
  "ensure_enrolled st request_data =
     (if user_profiles st (user_id request_data) = None
      then enroll_user st (user_id request_data) (request_age request_data)
             (replicate 5 (behavioral_vector request_data))
             (replicate 15 (behavioral_vector request_data))
      else Inr st)"

text \<open>
  \<open>authenticate_session\<close>. The model returns the orchestrator and the request's
  location dictionary as they are when the method returns or raises.
\<close>

definition authenticate_session ::
  "models \<Rightarrow> orchestrator \<Rightarrow> request \<Rightarrow> orchestrator \<times> location \<times> (error + pydict)" where
  "authenticate_session M st request_data =
     (let uid = user_id request_data;
          a = request_age request_data;
          v_test = behavioral_vector request_data;
          loc = location_info request_data
      in case ensure_enrolled st request_data of
           Inl e \<Rightarrow> (st, loc, Inl e)
         | Inr st1 \<Rightarrow>
             (case user_profiles st1 uid of
                None \<Rightarrow> (st1, loc, Inl KeyError)
              | Some user_t1 \<Rightarrow>
                  (let v_ref = D_ref user_t1 in
                   case authenticate user_t1 v_test loc of
                     (t1', loc', Inl e) \<Rightarrow>
                       (st1\<lparr>user_profiles := (user_profiles st1)(uid \<mapsto> t1')\<rparr>, loc', Inl e)
                   | (t1', loc', Inr t1_res) \<Rightarrow>
                       (let st2 = st1\<lparr>user_profiles := (user_profiles st1)(uid \<mapsto> t1')\<rparr> in
                        case map_of t1_res ''decision'' of
                          Some (Str decision) \<Rightarrow>
                            if str_contains ''PASS'' decision \<or> str_contains ''SKIP'' decision
                            then (st2, loc', Inr [(''tier'', Str ''T1''), (''decision'', Str decision)])
                            else if str_contains ''ESCALATE TO T2'' decision then
                              (case escalate_t2 M st2 uid a v_test v_ref t1_res loc' of
                                 (st3, res) \<Rightarrow> (st3, loc', res))
                            else if str_contains ''ESCALATE TO T3'' decision then
                              (case escalate_t3 M st2 uid v_test v_ref of
                                 (st3, res) \<Rightarrow> (st3, loc', res))
                            else (st2, loc', Inr [(''tier'', Str ''System''), (''decision'', Str ''UNKNOWN_STATE'')])
                        | _ \<Rightarrow> (st2, loc', Inl KeyError)))))"

section \<open>Auxiliary definitions and example data\<close>

text \<open>The length of the result of a broadcast of two one-dimensional arrays.\<close>

definition bshape :: "nat \<Rightarrow> nat \<Rightarrow> nat" where
  "bshape m n = (if m = n then m else if m = 1 then n else m)"

text \<open>
  An enrolled profile with the reference \<open>[1, 1, 1, 1, 1, 1]\<close> and the deviation scale
  0.01 in every component, and two location dictionaries: one at rest, one whose last
  login lies far from the current session.
\<close>

definition example_profile :: tier1 where
  "example_profile =
     \<lparr>age = 30, alpha_mean = 0.05, alpha_std = 0.02, D_ref = Some [1, 1, 1, 1, 1, 1],
      D_std = Some [0.01, 0.01, 0.01, 0.01, 0.01, 0.01], is_enrolled = True,
      idle_count = 2, idle_threshold = 3\<rparr>"

definition still_location :: location where
  "still_location =
     \<lparr>last_login = (0, 0), current_session = (0, 0), prev_30s = (0, 0), latest_30s = (0, 0),
      is_traveling = None\<rparr>"

definition moved_location :: location where
  "moved_location =
     \<lparr>last_login = (10, 10), current_session = (20, 20), prev_30s = (20, 20),
      latest_30s = (20, 20), is_traveling = None\<rparr>"

text \<open>
  Scorers and a Tier 3 state for the examples: the graph scorer gives 0 at every index,
  the drift tracker predicts mean \<open>[1, 1]\<close> with log-variance \<open>[0, 0]\<close>, both
  similarity scorers are constant, and one user is known to the graph with a history
  of 6 entries.
\<close>

definition example_models :: models where
  "example_models =
     \<lparr>gnn_probs = (\<lambda>i. 0), drift_tracker = (\<lambda>h. ([1, 1], [0, 0])),
      similarity_engine = (\<lambda>r v. 0), t2_model = (\<lambda>r v c. 0.8), scaler = (\<lambda>v. v)\<rparr>"

definition example_tier3 :: tier3 where
  "example_tier3 =
     \<lparr>user_id_to_idx = [''user_id_0'' \<mapsto> 0],
      user_history = [''user_id_0'' \<mapsto> replicate 6 [1, 1]]\<rparr>"

text \<open>
  A value whose first five multiples are \<open>float32\<close> values: the \<open>float32\<close> sum of five
  copies of it is exact at every step, and so is their mean.
\<close>

definition float32_exact5 :: "real \<Rightarrow> bool" where
  "float32_exact5 x =
     (float32 x = x \<and> float32 (2 * x) = 2 * x \<and> float32 (3 * x) = 3 * x
      \<and> float32 (4 * x) = 4 * x \<and> float32 (5 * x) = 5 * x)"


text \<open>
  An orchestrator that knows one user, a request of that user whose sample lies 0.02
  above the reference in every feature, a first request of an unknown user, and
  scorers whose Tier 2 model returns the third element of the context vector it is
  handed.
\<close>

definition example_orchestrator :: orchestrator where
  "example_orchestrator =
     \<lparr>user_profiles = [''user_id_0'' \<mapsto> example_profile], t3 = example_tier3\<rparr>"

definition example_request :: request where
  "example_request =
     \<lparr>user_id = ''user_id_0'', request_age = 30,
      behavioral_vector = [1.02, 1.02, 1.02, 1.02, 1.02, 1.02],
      location_info = still_location\<rparr>"


definition observing_models :: models where
  "observing_models =
     \<lparr>gnn_probs = (\<lambda>i. 0), drift_tracker = (\<lambda>h. ([1, 1], [0, 0])),
      similarity_engine = (\<lambda>r v. 0), t2_model = (\<lambda>r v c. c ! 2), scaler = (\<lambda>v. v)\<rparr>"

section \<open>Auxiliary facts\<close>

lemma haversine_same: "haversine p p = 0"
  by (simp add: haversine_def arctan2_def radians_def Let_def)

lemma float32_zero: "float32 0 = 0"
  by (simp add: float32_def)


lemma floor_log2_neg:
  assumes "1 / 2 ^ n \<le> x" and "x < 2 / 2 ^ n"
  shows "\<lfloor>log 2 x\<rfloor> = - int n"
proof -
  have "0 < 1 / (2::real) ^ n" by simp
  with assms(1) have x: "0 < x" by linarith
  have a: "2 powr real_of_int (- int n) = 1 / (2::real) ^ n"
    by (simp add: powr_realpow powr_minus inverse_eq_divide)
  have "2 powr real_of_int (- int n + 1) = 2 powr real_of_int (- int n) * 2 powr 1"
    by (simp only: of_int_add of_int_1 powr_add)
  then have b: "2 powr real_of_int (- int n + 1) = 2 / (2::real) ^ n"
    unfolding a by simp
  have "2 powr (real_of_int (- int n)) \<le> x \<and> x < 2 powr (real_of_int (- int n + 1))"
    unfolding a b using assms by blast
  then show ?thesis using floor_log_eq_powr_iff[of x 2 "- int n"] x by simp
qed

lemma round_half_even_of_int: "round_half_even (of_int k) = k"
  by (simp add: round_half_even_def)

lemma float32_of_int:
  assumes "\<bar>n\<bar> < 2 ^ 24"
  shows "float32 (of_int n) = of_int n"
proof (cases "n = 0")
  case True
  then show ?thesis by (simp add: float32_def)
next
  case False
  define e where "e = \<lfloor>log 2 \<bar>real_of_int n\<bar>\<rfloor>"
  have "1 \<le> \<bar>n\<bar>" using False by linarith
  then have "real_of_int 1 \<le> real_of_int \<bar>n\<bar>" by (simp only: of_int_le_iff)
  then have x1: "1 \<le> \<bar>real_of_int n\<bar>" by simp
  have "real_of_int \<bar>n\<bar> < real_of_int (2 ^ 24)" using assms by (simp only: of_int_less_iff)
  then have x2: "\<bar>real_of_int n\<bar> < 2 ^ 24" by simp
  have "0 \<le> log 2 \<bar>real_of_int n\<bar>" using x1 by simp
  then have e0: "0 \<le> e" unfolding e_def by simp
  have p: "(2::real) powr 24 = 2 ^ 24" using powr_realpow[of "2::real" 24] by simp
  have "log 2 \<bar>real_of_int n\<bar> < 24"
    using x1 x2 log_less_iff[of 2 "\<bar>real_of_int n\<bar>" 24] unfolding p by linarith
  then have e23: "e \<le> 23" unfolding e_def by linarith
  define k where "k = nat (23 - e)"
  have u: "ulp32 e = 1 / 2 ^ k" using e23 by (auto simp: ulp32_def k_def)
  have q: "real_of_int n / ulp32 e = of_int (n * 2 ^ k)" by (simp add: u)
  have m: "max e (- 126) = e" using e0 by simp
  have "float32 (of_int n) = of_int (round_half_even (real_of_int n / ulp32 e)) * ulp32 e"
    using False unfolding float32_def e_def[symmetric] Let_def m by simp
  also have "\<dots> = of_int (n * 2 ^ k) * ulp32 e"
    unfolding q round_half_even_of_int ..
  also have "\<dots> = of_int n" by (simp add: u)
  finally show ?thesis .
qed


lemma float32_eval_neg:
  assumes "1 / 2 ^ n \<le> \<bar>x\<bar>" and "\<bar>x\<bar> < 2 / 2 ^ n" and "n \<le> 126"
  shows "float32 x = of_int (round_half_even (x / ulp32 (- int n))) * ulp32 (- int n)"
proof -
  have x: "x \<noteq> 0"
  proof
    assume "x = 0"
    with assms(1) have "1 / (2::real) ^ n \<le> 0" by simp
    moreover have "0 < 1 / (2::real) ^ n" by simp
    ultimately show False by linarith
  qed
  have e: "\<lfloor>log 2 \<bar>x\<bar>\<rfloor> = - int n" by (rule floor_log2_neg[OF assms(1,2)])
  have m: "max (- int n) (- 126) = - int n" using assms(3) by simp
  show ?thesis unfolding float32_def e Let_def m using x by simp
qed

lemma float32_one: "float32 1 = 1"
  using float32_of_int[of 1] by simp


lemma float32_hundredth: "float32 0.01 = 5368709 / 536870912"
  by (subst float32_eval_neg[of 7]) (simp_all add: ulp32_def round_half_even_def Let_def)


lemma float32_exact5_zero: "float32_exact5 0"
  by (simp add: float32_exact5_def float32_zero)



lemma float32_exact5_one: "float32_exact5 1"
  using float32_of_int[of 1] float32_of_int[of 2] float32_of_int[of 3] float32_of_int[of 4]
    float32_of_int[of 5]
  by (simp add: float32_exact5_def)


lemma sum32_replicate5:
  assumes "float32_exact5 x"
  shows "sum32 (replicate 5 x) = 5 * x"
proof -
  have r: "replicate 5 x = [x, x, x, x, x]" by (simp add: eval_nat_numeral)
  have s2: "float32 (x + x) = 2 * x" and s3: "float32 (2 * x + x) = 3 * x"
    and s4: "float32 (3 * x + x) = 4 * x" and s5: "float32 (4 * x + x) = 5 * x"
    using assms by (simp_all add: float32_exact5_def)
  show ?thesis unfolding r sum32.simps foldl.simps s2 s3 s4 s5 ..
qed

lemma mean32_replicate5:
  assumes "float32_exact5 x"
  shows "mean32 (replicate 5 x) = x"
proof -
  have "float32 x = x" using assms by (simp add: float32_exact5_def)
  then show ?thesis by (simp add: mean32_def sum32_replicate5[OF assms])
qed

lemma std32_replicate5:
  assumes "float32_exact5 x"
  shows "std32 (replicate 5 x) = 0"
proof -
  have z: "sum32 (replicate 5 0) = 5 * 0" by (rule sum32_replicate5[OF float32_exact5_zero])
  show ?thesis
    unfolding std32_def Let_def mean32_replicate5[OF assms]
    by (simp add: float32_zero z)
qed

lemma float32_hundredth_pos: "0 < float32 0.01"
  unfolding float32_hundredth by simp

lemma column_replicate: "j < length v \<Longrightarrow> column (replicate n v) j = replicate n (v ! j)"
  by (simp add: column_def)

lemma enroll_replicate:
  assumes "list_all float32_exact5 (map float32 v)"
  shows "enroll t (replicate 5 v) =
     Inr (t\<lparr>D_ref := Some (map float32 v), D_std := Some (replicate (length v) (float32 0.01)),
            is_enrolled := True\<rparr>)"
proof -
  let ?w = "map float32 v"
  have ex: "\<And>j. j < length v \<Longrightarrow> float32_exact5 (float32 (v ! j))"
    using assms by (simp add: list_all_length)
  have d: "map (map float32) (replicate 5 v) = replicate 5 ?w" by simp
  have cols: "map (column (replicate 5 ?w)) [0 ..< length ?w]
                = map (\<lambda>j. replicate 5 (?w ! j)) [0 ..< length ?w]"
    by (simp add: column_replicate)
  have m: "map mean32 (map (\<lambda>j. replicate 5 (?w ! j)) [0 ..< length ?w]) = ?w"
    by (rule nth_equalityI) (simp_all add: mean32_replicate5 ex)
  have s: "map (\<lambda>c. max (std32 c) (float32 0.01)) (map (\<lambda>j. replicate 5 (?w ! j)) [0 ..< length ?w])
             = replicate (length v) (float32 0.01)"
    using float32_hundredth_pos
    by (intro nth_equalityI) (simp_all add: std32_replicate5 ex)
  have all: "list_all (\<lambda>u. length u = length (hd (replicate 5 v))) (replicate 5 v)"
    by (simp add: list_all_iff)
  have h: "hd (replicate 5 ?w) = ?w" by simp
  show ?thesis
    unfolding enroll_def Let_def d h cols m s using all by simp
qed

lemma z_scores_idle: "z_scores_of (t\<lparr>idle_count := n\<rparr>) v = z_scores_of t v"
  by (simp add: z_scores_of_def split: option.splits sum.splits)

lemma compute_idle: "compute_anomaly_score (t\<lparr>idle_count := n\<rparr>) v = compute_anomaly_score t v"
  by (simp add: compute_anomaly_score_def z_scores_idle split: sum.splits)

lemma count_nonzero_le: "count_nonzero v \<le> length v"
  by (simp add: count_nonzero_def)

lemma np_binop_ok:
  "length a = length b \<or> length a = 1 \<or> length b = 1 \<Longrightarrow>
     \<exists>c. np_binop f a b = Inr c \<and> length c = bshape (length a) (length b)"
  by (auto simp: np_binop_def bshape_def)

lemma np_binop_Inr_shape:
  "np_binop f a b = Inr c \<Longrightarrow>
     (length a = length b \<or> length a = 1 \<or> length b = 1) \<and> length c = bshape (length a) (length b)"
  by (auto simp: np_binop_def bshape_def split: if_splits)

lemma compute_Some_shapes:
  assumes "compute_anomaly_score t v = Inr (Some x)"
  shows "\<exists>r s. D_ref t = Some r \<and> D_std t = Some s \<and> 4 \<le> length v
           \<and> (length r = length v \<or> length r = 1) \<and> (length s = length v \<or> length s = 1)"
proof -
  have cnt: "\<not> count_nonzero v < 4"
    using assms by (auto simp: compute_anomaly_score_def split: if_splits)
  then have lv: "4 \<le> length v" using count_nonzero_le[of v] by linarith
  from assms cnt obtain z where z: "z_scores_of t v = Inr z"
    by (auto simp: compute_anomaly_score_def split: sum.splits)
  then obtain r d s q where
    r: "D_ref t = Some r" and d: "np_binop (-) v r = Inr d" and s: "D_std t = Some s"
    and q: "np_binop (/) d (map (\<lambda>x. x + 1 / 10 ^ 8) s) = Inr q"
    by (auto simp: z_scores_of_def split: option.splits sum.splits)
  from np_binop_Inr_shape[OF d] lv have ld: "length d = length v" and lr: "length r = length v \<or> length r = 1"
    by (auto simp: bshape_def split: if_splits)
  from np_binop_Inr_shape[OF q] ld lv have ls: "length s = length v \<or> length s = 1"
    by (auto simp: bshape_def split: if_splits)
  show ?thesis using r s lv lr ls by blast
qed

lemma update_profile_returns:
  assumes "compute_anomaly_score t v = Inr (Some x)"
  shows "snd (update_profile t v) = Inr ()"
proof -
  obtain score z where x: "x = (score, z)" by (cases x)
  from compute_Some_shapes[OF assms] obtain r s where
    r: "D_ref t = Some r" and s: "D_std t = Some s" and lv: "4 \<le> length v"
    and lr: "length r = length v \<or> length r = 1" and ls: "length s = length v \<or> length s = 1"
    by blast
  let ?a = "map (\<lambda>x. alpha_mean t * x) v" and ?b = "map (\<lambda>x. (1 - alpha_mean t) * x) r"
  from lr obtain r' where r': "np_binop (+) ?a ?b = Inr r'" and lr': "length r' = bshape (length ?a) (length ?b)"
    using np_binop_ok[of ?a ?b "(+)"] by auto
  have lr'': "length r' = length v" using lr' lr lv by (auto simp: bshape_def)
  obtain d where d: "np_binop (-) v r' = Inr d" and ld: "length d = bshape (length v) (length r')"
    using np_binop_ok[of v r' "(-)"] lr'' by auto
  let ?c = "map (\<lambda>x. alpha_std t * x) (map abs d)" and ?e = "map (\<lambda>x. (1 - alpha_std t) * x) s"
  have "length ?c = length ?e \<or> length ?c = 1 \<or> length ?e = 1" using ld lr'' ls by (auto simp: bshape_def)
  then obtain s' where s': "np_binop (+) ?c ?e = Inr s'"
    using np_binop_ok[of ?c ?e "(+)"] by blast
  show ?thesis
    unfolding update_profile_def by (simp add: assms x r s r' d s' Let_def del: map_map)
qed

lemma dynamic_rule_checks_loc:
  "fst (dynamic_rule_checks t v loc) = loc\<lparr>last_login := current_session loc\<rparr>"
  by (simp add: dynamic_rule_checks_def Let_def split: sum.splits)

lemma map2_map_map: "map2 f (map g xs) (map h ys) = map2 (\<lambda>x y. f (g x) (h y)) xs ys"
  by (simp add: zip_map_map split_def)

lemma update_profile_ema:
  assumes sc: "compute_anomaly_score t v = Inr (Some (score, z))" and lt: "score < 1.5"
    and cnt: "count_nonzero v \<ge> 6" and r: "D_ref t = Some r" and s: "D_std t = Some s"
    and lr: "length r = length v" and ls: "length s = length v"
  shows "update_profile t v =
            (t\<lparr>D_ref := Some (map2 (\<lambda>x y. alpha_mean t * x + (1 - alpha_mean t) * y) v r),
               D_std := Some (map2 (\<lambda>d y. alpha_std t * d + (1 - alpha_std t) * y)
                                (map2 (\<lambda>x y. \<bar>x - y\<bar>) v
                                   (map2 (\<lambda>x y. alpha_mean t * x + (1 - alpha_mean t) * y) v r)) s)\<rparr>,
             Inr ())"
proof -
  let ?r' = "map2 (\<lambda>x y. alpha_mean t * x + (1 - alpha_mean t) * y) v r"
  have r': "np_binop (+) (map (\<lambda>x. alpha_mean t * x) v) (map (\<lambda>x. (1 - alpha_mean t) * x) r) = Inr ?r'"
    by (simp add: np_binop_def lr map2_map_map)
  have d: "np_binop (-) v ?r' = Inr (map2 (-) v ?r')"
    by (simp add: np_binop_def lr)
  have s': "np_binop (+) (map (\<lambda>x. alpha_std t * x) (map abs (map2 (-) v ?r')))
                         (map (\<lambda>x. (1 - alpha_std t) * x) s)
            = Inr (map2 (\<lambda>d y. alpha_std t * d + (1 - alpha_std t) * y) (map2 (\<lambda>x y. \<bar>x - y\<bar>) v ?r') s)"
    unfolding np_binop_def by (auto intro!: nth_equalityI simp: lr ls)
  show ?thesis
    unfolding update_profile_def using lt cnt by (simp add: sc r s r' d s' Let_def del: map_map)
qed

lemma ex_compute: "compute_anomaly_score example_profile [1, 1, 1, 1, 1, 1] = Inr (Some (0, [0, 0, 0, 0, 0, 0]))"
  by (simp add: compute_anomaly_score_def count_nonzero_def z_scores_of_def np_binop_def
        example_profile_def np_mean_def)

lemma ex_rules: "dynamic_rule_checks example_profile [1, 1, 1, 1, 1, 1] still_location = (still_location, Inr ([], 0))"
  by (simp add: dynamic_rule_checks_def dist_login_def haversine_same z_scores_of_def np_binop_def
        example_profile_def still_location_def feature_flag_def np_get_def Let_def)

lemma authenticate_loc:
  assumes "is_enrolled t" and "compute_anomaly_score t v = Inr sc"
  shows "fst (snd (authenticate t v loc)) = loc\<lparr>last_login := current_session loc\<rparr>"
proof -
  have "fst (snd (authenticate t v loc)) = fst (dynamic_rule_checks t v loc)"
    using assms unfolding authenticate_def
    by (auto simp: Let_def split: prod.splits sum.splits option.splits if_splits)
  then show ?thesis by (simp add: dynamic_rule_checks_loc)
qed

lemma sum_list_abs_nonneg: "0 \<le> sum_list (map abs (q :: real list))"
  by (induction q) auto

lemma np_mean_abs_nonneg: "0 \<le> np_mean (map abs q)"
  unfolding np_mean_def by (intro divide_nonneg_nonneg sum_list_abs_nonneg) simp

lemma z_scores_abs: "z_scores_of t v = Inr z \<Longrightarrow> \<exists>q. z = map abs q"
  by (auto simp: z_scores_of_def split: option.splits sum.splits)

lemma compute_score_nonneg:
  assumes "compute_anomaly_score t v = Inr (Some (score, z))"
  shows "0 \<le> score"
proof -
  from assms have cnt: "\<not> count_nonzero v < 4"
    by (auto simp: compute_anomaly_score_def split: if_splits)
  with assms obtain zz where zz: "z_scores_of t v = Inr zz"
    by (auto simp: compute_anomaly_score_def split: sum.splits)
  then obtain q where q: "zz = map abs q" using z_scores_abs by blast
  have m: "0 \<le> np_mean zz" unfolding q by (rule np_mean_abs_nonneg)
  have "score = np_mean zz * 1.15 \<or> score = np_mean zz"
    using assms cnt zz by (auto simp: compute_anomaly_score_def split: if_splits)
  then show ?thesis using m by auto
qed

lemma ex_sparse_rules:
  "dynamic_rule_checks example_profile [100, 0, 0, 0, 0, 0] still_location
     = (still_location, Inr ([''Suspicious accuracy deviation''], 0))"
  by (simp add: dynamic_rule_checks_def dist_login_def haversine_same z_scores_of_def np_binop_def
        example_profile_def still_location_def feature_flag_def np_get_def Let_def)

lemma gaussian_nll_same_length:
  assumes "length mu = length v_test" and "length log_var = length v_test"
  shows "gaussian_nll mu log_var v_test =
           Inr (map2 (\<lambda>x (m, lv). 0.5 * (lv + (x - m) ^ 2 / exp lv)) v_test (zip mu log_var))"
  using assms unfolding gaussian_nll_def torch_binop_def np_binop_def
  by (auto intro!: nth_equalityI)

lemma ex_drift: "drift_anomaly_of example_models example_tier3 ''user_id_0'' [1, 1] = Inr 0"
  by (simp add: drift_anomaly_of_def example_models_def example_tier3_def gaussian_nll_def
        torch_binop_def np_binop_def np_mean_def list_all_iff)

lemma label_T2_contains:
  "\<not> str_contains ''PASS'' ''ESCALATE TO T2 (Medium Anomaly)''"
  "\<not> str_contains ''SKIP'' ''ESCALATE TO T2 (Medium Anomaly)''"
  "str_contains ''ESCALATE TO T2'' ''ESCALATE TO T2 (Medium Anomaly)''"
  by simp_all

lemma t1_result_decision: "map_of (t1_result d fl) ''decision'' = Some (Str d)"
  by (simp add: t1_result_def)

lemma t1_result_score: "dict_get (t1_result d fl) ''score'' dflt = dflt"
  by (simp add: t1_result_def dict_get_def)

lemma authenticate_T2_inv:
  assumes "authenticate t v loc = (t', loc', Inr res)"
    and "map_of res ''decision'' = Some (Str ''ESCALATE TO T2 (Medium Anomaly)'')"
  shows "\<exists>score z fl. compute_anomaly_score t v = Inr (Some (score, z))
           \<and> res = t1_result ''ESCALATE TO T2 (Medium Anomaly)'' fl"
  using assms unfolding authenticate_def
  by (auto simp: Let_def t1_result_def split: if_splits sum.splits prod.splits option.splits)















lemma session_T2_dispatch:
  assumes en: "ensure_enrolled st req = Inr st1"
    and prof: "user_profiles st1 (user_id req) = Some t"
    and auth: "authenticate t (behavioral_vector req) (location_info req) =
                 (t', loc', Inr (t1_result ''ESCALATE TO T2 (Medium Anomaly)'' fl))"
  shows "authenticate_session M st req =
           (case escalate_t2 M (st1\<lparr>user_profiles := (user_profiles st1)(user_id req \<mapsto> t')\<rparr>)
                   (user_id req) (request_age req) (behavioral_vector req) (D_ref t)
                   (t1_result ''ESCALATE TO T2 (Medium Anomaly)'' fl) loc' of
              (st3, res) \<Rightarrow> (st3, loc', res))"
  unfolding authenticate_session_def
  by (simp add: en prof auth Let_def t1_result_decision label_T2_contains)

lemma escalate_t2_result:
  assumes r: "v_ref = Some r" and d: "np_binop (-) r v = Inr d"
  shows "escalate_t2 M st uid a v v_ref (t1_result lbl fl) loc =
           (let ctx = [linalg_norm d / (linalg_norm r + 1 / 10 ^ 8), real_of_int a / 100, 1.5,
                       (if (case is_traveling loc of None \<Rightarrow> False | Some b \<Rightarrow> b) then 1 else 0), 0];
                sim = t2_model M (scaler M r) (scaler M v) ctx
            in if sim \<ge> 0.8
               then (st, Inr [(''tier'', Str ''T2''), (''decision'', Str ''PASS''), (''score'', Num sim)])
               else (case t3_authenticate M (t3 st) uid v r of
                       Inl e \<Rightarrow> (st, Inl e)
                     | Inr (s', final_t3) \<Rightarrow> (st\<lparr>t3 := s'\<rparr>, Inr ((''tier'', Str ''T3'') # final_t3))))"
  unfolding escalate_t2_def t1_result_score create_context_vector_def escalate_t3_def r
  by (simp add: d Let_def)

lemma ex_session_enrolled:
  "ensure_enrolled example_orchestrator example_request = Inr example_orchestrator"
  "user_profiles example_orchestrator (user_id example_request) = Some example_profile"
  by (simp_all add: ensure_enrolled_def example_orchestrator_def example_request_def)

lemma ex_score_T2:
  "compute_anomaly_score example_profile (behavioral_vector example_request) =
     Inr (Some (2000000 / 1000001,
                [2000000 / 1000001, 2000000 / 1000001, 2000000 / 1000001,
                 2000000 / 1000001, 2000000 / 1000001, 2000000 / 1000001]))"
  by (simp add: compute_anomaly_score_def count_nonzero_def z_scores_of_def np_binop_def
        example_profile_def example_request_def np_mean_def)

lemma ex_rules_T2:
  "dynamic_rule_checks example_profile (behavioral_vector example_request) (location_info example_request)
     = (still_location, Inr ([], 0))"
  by (simp add: dynamic_rule_checks_def dist_login_def haversine_same z_scores_of_def np_binop_def
        example_profile_def example_request_def still_location_def feature_flag_def np_get_def Let_def)

lemma ex_auth_T2:
  "authenticate example_profile (behavioral_vector example_request) (location_info example_request) =
     (example_profile\<lparr>idle_count := 0\<rparr>, still_location,
      Inr (t1_result ''ESCALATE TO T2 (Medium Anomaly)'' []))"
proof -
  have e: "is_enrolled example_profile" by (simp add: example_profile_def)
  show ?thesis
    unfolding authenticate_def using e by (simp add: ex_score_T2 ex_rules_T2)
qed

lemma ex_session_observed:
  "snd (snd (authenticate_session observing_models example_orchestrator example_request)) =
     Inr [(''tier'', Str ''T2''), (''decision'', Str ''PASS''), (''score'', Num 1.5)]"
proof -
  have r: "D_ref example_profile = Some [1, 1, 1, 1, 1, 1]" by (simp add: example_profile_def)
  have d: "np_binop (-) [1, 1, 1, 1, 1, 1] (behavioral_vector example_request)
             = Inr (map2 (-) [1, 1, 1, 1, 1, 1] (behavioral_vector example_request))"
    by (simp add: np_binop_def example_request_def)
  have m: "\<And>r v c. t2_model observing_models r v c = c ! 2" by (simp add: observing_models_def)
  show ?thesis
    unfolding session_T2_dispatch[OF ex_session_enrolled ex_auth_T2] escalate_t2_result[OF r d]
    by (simp add: m Let_def)
qed

section \<open>Tier 1 decision policy\<close>

text \<open>
  Claim C1. For an enrolled profile and a sample on which the rule checks return their
  flag list: when the anomaly score is computed, a score below 0.8 with no flag gives
  PASS and the authenticator is the one \<open>_update_profile\<close> leaves (which returns
  normally); a score of at least 2.0 or more than one flag gives the direct escalation
  to Tier 3; every other computed score gives the escalation to Tier 2; and when the
  score is unavailable the decision is the low-activity SKIP (not an escalation label)
  and the idle counter is incremented.
\<close>

theorem tier1_decision_policy:
  assumes enr: "is_enrolled t"
    and rules: "dynamic_rule_checks t v loc = (loc', Inr (flags, speed))"
  shows
    "(compute_anomaly_score t v = Inr (Some (score, z)) \<longrightarrow>
        (score < 0.8 \<and> flags = [] \<longrightarrow>
           authenticate t v loc =
             (fst (update_profile (t\<lparr>idle_count := 0\<rparr>) v), loc', Inr (t1_result ''PASS'' flags))
           \<and> snd (update_profile (t\<lparr>idle_count := 0\<rparr>) v) = Inr ())
      \<and> (score \<ge> 2.0 \<or> length flags > 1 \<longrightarrow>
           authenticate t v loc =
             (t\<lparr>idle_count := 0\<rparr>, loc', Inr (t1_result ''ESCALATE TO T3 (High Anomaly)'' flags)))
      \<and> (\<not> (score < 0.8 \<and> flags = []) \<and> \<not> (score \<ge> 2.0 \<or> length flags > 1) \<longrightarrow>
           authenticate t v loc =
             (t\<lparr>idle_count := 0\<rparr>, loc', Inr (t1_result ''ESCALATE TO T2 (Medium Anomaly)'' flags))))
     \<and> (compute_anomaly_score t v = Inr None \<longrightarrow>
           authenticate t v loc =
             (t\<lparr>idle_count := idle_count t + 1\<rparr>, loc',
              Inr (t1_result ''SKIP INTERVAL (low activity)'' flags))
           \<and> \<not> str_contains ''ESCALATE'' ''SKIP INTERVAL (low activity)'')"
proof (intro conjI impI)
  assume sc: "compute_anomaly_score t v = Inr (Some (score, z))" and p: "score < 0.8 \<and> flags = []"
  have c0: "compute_anomaly_score (t\<lparr>idle_count := 0\<rparr>) v = Inr (Some (score, z))"
    using sc by (simp add: compute_idle)
  show u: "snd (update_profile (t\<lparr>idle_count := 0\<rparr>) v) = Inr ()"
    by (rule update_profile_returns[OF c0])
  obtain t1 where t1: "update_profile (t\<lparr>idle_count := 0\<rparr>) v = (t1, Inr ())"
    using u by (cases "update_profile (t\<lparr>idle_count := 0\<rparr>) v") auto
  show "authenticate t v loc =
          (fst (update_profile (t\<lparr>idle_count := 0\<rparr>) v), loc', Inr (t1_result ''PASS'' flags))"
    unfolding authenticate_def using enr p by (simp add: sc rules t1 Let_def)
next
  assume sc: "compute_anomaly_score t v = Inr (Some (score, z))" and p: "score \<ge> 2.0 \<or> length flags > 1"
  show "authenticate t v loc =
          (t\<lparr>idle_count := 0\<rparr>, loc', Inr (t1_result ''ESCALATE TO T3 (High Anomaly)'' flags))"
    unfolding authenticate_def using enr p by (auto simp add: sc rules Let_def)
next
  assume sc: "compute_anomaly_score t v = Inr (Some (score, z))"
    and p: "\<not> (score < 0.8 \<and> flags = []) \<and> \<not> (score \<ge> 2.0 \<or> length flags > 1)"
  show "authenticate t v loc =
          (t\<lparr>idle_count := 0\<rparr>, loc', Inr (t1_result ''ESCALATE TO T2 (Medium Anomaly)'' flags))"
    unfolding authenticate_def using enr p by (auto simp add: sc rules Let_def)
next
  assume sc: "compute_anomaly_score t v = Inr None"
  show "authenticate t v loc =
          (t\<lparr>idle_count := idle_count t + 1\<rparr>, loc',
           Inr (t1_result ''SKIP INTERVAL (low activity)'' flags))"
    unfolding authenticate_def using enr by (simp add: sc rules)
next
  show "\<not> str_contains ''ESCALATE'' ''SKIP INTERVAL (low activity)''" by simp
qed

theorem tier1_decision_policy_witness:
  "is_enrolled example_profile
   \<and> dynamic_rule_checks example_profile [1, 1, 1, 1, 1, 1] still_location = (still_location, Inr ([], 0))
   \<and> compute_anomaly_score example_profile [1, 1, 1, 1, 1, 1] = Inr (Some (0, [0, 0, 0, 0, 0, 0]))
   \<and> snd (snd (authenticate example_profile [1, 1, 1, 1, 1, 1] still_location)) = Inr (t1_result ''PASS'' [])"
proof -
  have e: "is_enrolled example_profile" by (simp add: example_profile_def)
  show ?thesis
    using tier1_decision_policy[OF e ex_rules, of 0 "[0, 0, 0, 0, 0, 0]"] e ex_rules ex_compute
    by simp
qed

section \<open>The location dictionary is overwritten\<close>

text \<open>
  Claim C10. A call of \<open>authenticate\<close> on an enrolled profile whose sample reaches the
  rule checks leaves the caller's location dictionary with its last-login coordinates
  set to the current session's coordinates, so the login distance read from it by a
  repeated call is zero and that call cannot raise the login-distance flag.
\<close>

theorem location_overwritten:
  assumes enr: "is_enrolled t"
    and sc: "compute_anomaly_score t v = Inr sc"
    and auth: "authenticate t v loc = (t', loc', out)"
  shows "last_login loc' = current_session loc \<and> current_session loc' = current_session loc
         \<and> dist_login loc' = 0
         \<and> (dynamic_rule_checks t2 v2 loc' = (loc2, Inr (flags2, speed2)) \<longrightarrow>
              ''Unusual login distance (>10km)'' \<notin> set flags2)"
proof -
  have "loc' = fst (dynamic_rule_checks t v loc)"
    using auth enr sc unfolding authenticate_def
    by (auto simp: Let_def split: prod.splits sum.splits option.splits if_splits)
  then have l: "loc' = loc\<lparr>last_login := current_session loc\<rparr>"
    by (simp add: dynamic_rule_checks_loc)
  have d: "dist_login loc' = 0" by (simp add: l dist_login_def haversine_same)
  have "dynamic_rule_checks t2 v2 loc' = (loc2, Inr (flags2, speed2)) \<longrightarrow>
              ''Unusual login distance (>10km)'' \<notin> set flags2"
    unfolding dynamic_rule_checks_def feature_flag_def
    by (auto simp: d Let_def split: sum.splits if_splits)
  then show ?thesis using l d by simp
qed


theorem location_overwritten_witness:
  "is_enrolled example_profile
   \<and> compute_anomaly_score example_profile [1, 1, 1, 1, 1, 1] = Inr (Some (0, [0, 0, 0, 0, 0, 0]))
   \<and> last_login moved_location = (10, 10)
   \<and> last_login (fst (snd (authenticate example_profile [1, 1, 1, 1, 1, 1] moved_location))) = (20, 20)
   \<and> dist_login (fst (snd (authenticate example_profile [1, 1, 1, 1, 1, 1] moved_location))) = 0"
proof -
  have e: "is_enrolled example_profile" by (simp add: example_profile_def)
  have a: "authenticate example_profile [1, 1, 1, 1, 1, 1] moved_location =
             (fst (authenticate example_profile [1, 1, 1, 1, 1, 1] moved_location),
              fst (snd (authenticate example_profile [1, 1, 1, 1, 1, 1] moved_location)),
              snd (snd (authenticate example_profile [1, 1, 1, 1, 1, 1] moved_location)))"
    by simp
  show ?thesis
    using location_overwritten[OF e ex_compute a] e ex_compute
    by (simp add: moved_location_def)
qed

section \<open>Profile update\<close>

text \<open>
  Claim C5. \<open>_update_profile\<close> leaves the profile as it was when the score of the
  sample cannot be computed, when it is at least 1.5, or when fewer than 6 features of
  the sample are nonzero. Otherwise, with the default learning rates and a sample of
  the profile's length, the reference becomes \<open>0.05 * v + 0.95 * D_ref\<close> and the
  deviation scale becomes \<open>0.02 * |v - D_ref| + 0.98 * D_std\<close>, where, the two
  assignments being made in this order, the deviation is taken against the reference
  just assigned.
\<close>

theorem update_profile_frame:
  "((compute_anomaly_score t v = Inr None \<or> compute_anomaly_score t v = Inl e
      \<or> (compute_anomaly_score t v = Inr (Some (score, z)) \<and> (score \<ge> 1.5 \<or> count_nonzero v < 6)))
     \<longrightarrow> fst (update_profile t v) = t)
   \<and> (compute_anomaly_score t v = Inr (Some (score, z)) \<and> score < 1.5 \<and> count_nonzero v \<ge> 6
        \<and> D_ref t = Some r \<and> D_std t = Some s \<and> length r = length v \<and> length s = length v
        \<and> alpha_mean t = 0.05 \<and> alpha_std t = 0.02
      \<longrightarrow> update_profile t v =
            (t\<lparr>D_ref := Some (map2 (\<lambda>x y. 0.05 * x + 0.95 * y) v r),
               D_std := Some (map2 (\<lambda>d y. 0.02 * d + 0.98 * y)
                                (map2 (\<lambda>x y. \<bar>x - y\<bar>) v (map2 (\<lambda>x y. 0.05 * x + 0.95 * y) v r)) s)\<rparr>,
             Inr ()))"
proof (intro conjI impI)
  assume "compute_anomaly_score t v = Inr None \<or> compute_anomaly_score t v = Inl e
      \<or> (compute_anomaly_score t v = Inr (Some (score, z)) \<and> (score \<ge> 1.5 \<or> count_nonzero v < 6))"
  then show "fst (update_profile t v) = t"
    unfolding update_profile_def by auto
next
  assume a: "compute_anomaly_score t v = Inr (Some (score, z)) \<and> score < 1.5 \<and> count_nonzero v \<ge> 6
        \<and> D_ref t = Some r \<and> D_std t = Some s \<and> length r = length v \<and> length s = length v
        \<and> alpha_mean t = 0.05 \<and> alpha_std t = 0.02"
  from a have sc: "compute_anomaly_score t v = Inr (Some (score, z))" and lt: "score < 1.5"
    and cnt: "count_nonzero v \<ge> 6" and r: "D_ref t = Some r" and s: "D_std t = Some s"
    and lr: "length r = length v" and ls: "length s = length v"
    and am: "alpha_mean t = 0.05" and as: "alpha_std t = 0.02"
    by blast+
  show "update_profile t v =
            (t\<lparr>D_ref := Some (map2 (\<lambda>x y. 0.05 * x + 0.95 * y) v r),
               D_std := Some (map2 (\<lambda>d y. 0.02 * d + 0.98 * y)
                                (map2 (\<lambda>x y. \<bar>x - y\<bar>) v (map2 (\<lambda>x y. 0.05 * x + 0.95 * y) v r)) s)\<rparr>,
             Inr ())"
    by (simp add: update_profile_ema[OF sc lt cnt r s lr ls] am as)
qed

theorem update_profile_frame_witness:
  "compute_anomaly_score example_profile [1, 1, 1, 1, 1, 1] = Inr (Some (0, [0, 0, 0, 0, 0, 0]))
   \<and> (0::real) < 1.5 \<and> count_nonzero [1, 1, 1, 1, 1, 1] \<ge> 6
   \<and> update_profile example_profile [1, 1, 1, 1, 1, 1] =
        (example_profile\<lparr>D_ref := Some [1, 1, 1, 1, 1, 1],
                          D_std := Some [0.0098, 0.0098, 0.0098, 0.0098, 0.0098, 0.0098]\<rparr>, Inr ())"
proof -
  have c: "count_nonzero [1, 1, 1, 1, 1, 1] \<ge> 6" by (simp add: count_nonzero_def)
  have h: "D_ref example_profile = Some [1, 1, 1, 1, 1, 1]
           \<and> D_std example_profile = Some [0.01, 0.01, 0.01, 0.01, 0.01, 0.01]
           \<and> alpha_mean example_profile = 0.05 \<and> alpha_std example_profile = 0.02"
    by (simp add: example_profile_def)
  show ?thesis
    using update_profile_frame[of example_profile "[1, 1, 1, 1, 1, 1]" TypeError 0 "[0, 0, 0, 0, 0, 0]"
            "[1, 1, 1, 1, 1, 1]" "[0.01, 0.01, 0.01, 0.01, 0.01, 0.01]"] ex_compute c h
    by simp
qed

section \<open>The floor of the deviation scale\<close>

text \<open>
  Claim C3. \<open>enroll\<close> clamps every component of the deviation scale at the \<open>float32\<close>
  value of \<open>1e-2\<close> (5368709/536870912, a little below 0.01), but \<open>_update_profile\<close>
  assigns the moving average without clamping it. Enrolling with five copies of
  \<open>[1, 1, 1, 1, 1, 1]\<close> gives a deviation scale at that floor in every component, and
  one update with the same sample takes every component to 0.98 times the floor
  (263066741/26843545600, about 0.0098), below it.
\<close>

theorem update_breaks_floor:
  "enroll (Tier1Authenticator 30) (replicate 5 [1, 1, 1, 1, 1, 1]) =
     Inr \<lparr>age = 30, alpha_mean = 0.05, alpha_std = 0.02, D_ref = Some [1, 1, 1, 1, 1, 1],
          D_std = Some [5368709 / 536870912, 5368709 / 536870912, 5368709 / 536870912, 5368709 / 536870912, 5368709 / 536870912, 5368709 / 536870912],
          is_enrolled = True, idle_count = 0, idle_threshold = 3\<rparr>
   \<and> update_profile
        \<lparr>age = 30, alpha_mean = 0.05, alpha_std = 0.02, D_ref = Some [1, 1, 1, 1, 1, 1],
         D_std = Some [5368709 / 536870912, 5368709 / 536870912, 5368709 / 536870912, 5368709 / 536870912, 5368709 / 536870912, 5368709 / 536870912],
         is_enrolled = True, idle_count = 0, idle_threshold = 3\<rparr> [1, 1, 1, 1, 1, 1] =
       (\<lparr>age = 30, alpha_mean = 0.05, alpha_std = 0.02, D_ref = Some [1, 1, 1, 1, 1, 1],
         D_std = Some [263066741 / 26843545600, 263066741 / 26843545600, 263066741 / 26843545600, 263066741 / 26843545600, 263066741 / 26843545600, 263066741 / 26843545600],
         is_enrolled = True, idle_count = 0, idle_threshold = 3\<rparr>, Inr ())
   \<and> float32 0.01 = 5368709 / 536870912
   \<and> (263066741 / 26843545600 :: real) < 5368709 / 536870912
   \<and> (263066741 / 26843545600 :: real) < 0.01"
proof -
  let ?p = "\<lparr>age = 30, alpha_mean = 0.05, alpha_std = 0.02, D_ref = Some [1, 1, 1, 1, 1, 1],
         D_std = Some [5368709 / 536870912, 5368709 / 536870912, 5368709 / 536870912, 5368709 / 536870912, 5368709 / 536870912, 5368709 / 536870912],
         is_enrolled = True, idle_count = 0, idle_threshold = 3\<rparr>"
  have x: "list_all float32_exact5 (map float32 [1, 1, 1, 1, 1, 1])"
    by (simp add: float32_one float32_exact5_one)
  have e: "enroll (Tier1Authenticator 30) (replicate 5 [1, 1, 1, 1, 1, 1]) = Inr ?p"
    unfolding enroll_replicate[OF x] float32_hundredth
    by (simp add: Tier1Authenticator_def float32_one eval_nat_numeral)
  have c: "compute_anomaly_score ?p [1, 1, 1, 1, 1, 1] = Inr (Some (0, [0, 0, 0, 0, 0, 0]))"
    by (simp add: compute_anomaly_score_def count_nonzero_def z_scores_of_def np_binop_def np_mean_def)
  have n: "count_nonzero [1, 1, 1, 1, 1, 1] \<ge> 6" by (simp add: count_nonzero_def)
  have u: "update_profile ?p [1, 1, 1, 1, 1, 1] =
       (\<lparr>age = 30, alpha_mean = 0.05, alpha_std = 0.02, D_ref = Some [1, 1, 1, 1, 1, 1],
         D_std = Some [263066741 / 26843545600, 263066741 / 26843545600, 263066741 / 26843545600, 263066741 / 26843545600, 263066741 / 26843545600, 263066741 / 26843545600],
         is_enrolled = True, idle_count = 0, idle_threshold = 3\<rparr>, Inr ())"
    using update_profile_ema[OF c _ n, of "[1, 1, 1, 1, 1, 1]"
            "[5368709 / 536870912, 5368709 / 536870912, 5368709 / 536870912, 5368709 / 536870912, 5368709 / 536870912, 5368709 / 536870912]"]
    by simp
  have f: "float32 0.01 = 5368709 / 536870912" by (rule float32_hundredth)
  show ?thesis using e u f by simp
qed


section \<open>Sparse samples\<close>

text \<open>
  Claim C4, as the code has it. A sample with fewer than 4 nonzero features has no
  anomaly score; when the rule checks return, the decision is the low-activity SKIP
  and the idle counter is incremented, but the rule checks have run: their flags are
  part of the result and the location dictionary has its last login overwritten. A
  sample with at least 4 nonzero features has a non-negative score whenever the score
  computation returns, and it returns for every sample of the profile's length.
\<close>

theorem sparse_sample_skips:
  "(count_nonzero v < 4 \<longrightarrow>
      compute_anomaly_score t v = Inr None
      \<and> (is_enrolled t \<and> dynamic_rule_checks t v loc = (loc', Inr (flags, speed)) \<longrightarrow>
           authenticate t v loc =
             (t\<lparr>idle_count := idle_count t + 1\<rparr>, loc',
              Inr (t1_result ''SKIP INTERVAL (low activity)'' flags))
           \<and> loc' = loc\<lparr>last_login := current_session loc\<rparr>))
   \<and> (count_nonzero v \<ge> 4 \<longrightarrow>
        (compute_anomaly_score t v = Inr sc \<longrightarrow> (\<exists>score z. sc = Some (score, z) \<and> 0 \<le> score))
        \<and> (D_ref t = Some r \<and> D_std t = Some s \<and> length r = length v \<and> length s = length v \<longrightarrow>
             (\<exists>score z. compute_anomaly_score t v = Inr (Some (score, z)) \<and> 0 \<le> score)))"
proof (intro conjI impI)
  assume c: "count_nonzero v < 4"
  then show n: "compute_anomaly_score t v = Inr None" by (simp add: compute_anomaly_score_def)
  assume h: "is_enrolled t \<and> dynamic_rule_checks t v loc = (loc', Inr (flags, speed))"
  then show "authenticate t v loc =
             (t\<lparr>idle_count := idle_count t + 1\<rparr>, loc',
              Inr (t1_result ''SKIP INTERVAL (low activity)'' flags))"
    unfolding authenticate_def by (simp add: n)
  from h have "fst (dynamic_rule_checks t v loc) = loc'" by simp
  then show "loc' = loc\<lparr>last_login := current_session loc\<rparr>"
    by (simp add: dynamic_rule_checks_loc)
next
  assume c: "4 \<le> count_nonzero v" and s: "compute_anomaly_score t v = Inr sc"
  from c s obtain score z where sc: "sc = Some (score, z)"
    by (auto simp: compute_anomaly_score_def split: sum.splits)
  with s compute_score_nonneg[of t v score z] show "\<exists>score z. sc = Some (score, z) \<and> 0 \<le> score"
    by auto
next
  assume c: "4 \<le> count_nonzero v"
    and h: "D_ref t = Some r \<and> D_std t = Some s \<and> length r = length v \<and> length s = length v"
  then obtain z where "z_scores_of t v = Inr z"
    by (auto simp: z_scores_of_def np_binop_def)
  with c obtain score where sc: "compute_anomaly_score t v = Inr (Some (score, z))"
    by (auto simp: compute_anomaly_score_def)
  with compute_score_nonneg[OF sc] show "\<exists>score z. compute_anomaly_score t v = Inr (Some (score, z)) \<and> 0 \<le> score"
    by blast
qed

theorem sparse_sample_skips_witness:
  "count_nonzero [100, 0, 0, 0, 0, 0] < 4 \<and> is_enrolled example_profile
   \<and> dynamic_rule_checks example_profile [100, 0, 0, 0, 0, 0] still_location
        = (still_location, Inr ([''Suspicious accuracy deviation''], 0))
   \<and> authenticate example_profile [100, 0, 0, 0, 0, 0] still_location =
        (example_profile\<lparr>idle_count := 3\<rparr>, still_location,
         Inr (t1_result ''SKIP INTERVAL (low activity)'' [''Suspicious accuracy deviation'']))
   \<and> 4 \<le> count_nonzero [1, 1, 1, 1, 1, 1]
   \<and> (\<exists>score z. compute_anomaly_score example_profile [1, 1, 1, 1, 1, 1] = Inr (Some (score, z)) \<and> 0 \<le> score)"
proof -
  have c: "count_nonzero [100, 0, 0, 0, 0, 0] < 4" by (simp add: count_nonzero_def)
  have c': "4 \<le> count_nonzero [1, 1, 1, 1, 1, 1]" by (simp add: count_nonzero_def)
  have e: "is_enrolled example_profile" and i: "idle_count example_profile + 1 = 3"
    and h: "D_ref example_profile = Some [1, 1, 1, 1, 1, 1]
            \<and> D_std example_profile = Some [0.01, 0.01, 0.01, 0.01, 0.01, 0.01]"
    by (simp_all add: example_profile_def)
  show ?thesis
    using sparse_sample_skips[of "[100, 0, 0, 0, 0, 0]" example_profile still_location still_location
            "[''Suspicious accuracy deviation'']" 0]
          sparse_sample_skips[of "[1, 1, 1, 1, 1, 1]" example_profile _ _ _ _ _
            "[1, 1, 1, 1, 1, 1]" "[0.01, 0.01, 0.01, 0.01, 0.01, 0.01]"]
          c c' e i h ex_sparse_rules
    by simp
qed


text \<open>
  Claim C4 as stated fails: for a sample with one nonzero feature the per-feature rule
  check raises the accuracy flag, which is returned with the SKIP decision, and the
  location check overwrites the last login of the caller's location dictionary.
\<close>

theorem sparse_sample_counterexample:
  "count_nonzero [100, 0, 0, 0, 0, 0] < 4
   \<and> snd (snd (authenticate
        \<lparr>age = 30, alpha_mean = 0.05, alpha_std = 0.02, D_ref = Some [1, 1, 1, 1, 1, 1],
         D_std = Some [0.01, 0.01, 0.01, 0.01, 0.01, 0.01], is_enrolled = True,
         idle_count = 2, idle_threshold = 3\<rparr>
        [100, 0, 0, 0, 0, 0]
        \<lparr>last_login = (0, 0), current_session = (0, 0), prev_30s = (0, 0), latest_30s = (0, 0),
         is_traveling = None\<rparr>))
       = Inr [(''decision'', Str ''SKIP INTERVAL (low activity)''),
              (''flags'', StrList [''Suspicious accuracy deviation''])]
   \<and> last_login (fst (snd (authenticate
        \<lparr>age = 30, alpha_mean = 0.05, alpha_std = 0.02, D_ref = Some [1, 1, 1, 1, 1, 1],
         D_std = Some [0.01, 0.01, 0.01, 0.01, 0.01, 0.01], is_enrolled = True,
         idle_count = 2, idle_threshold = 3\<rparr>
        [100, 0, 0, 0, 0, 0]
        \<lparr>last_login = (10, 10), current_session = (20, 20), prev_30s = (20, 20),
         latest_30s = (20, 20), is_traveling = None\<rparr>))) = (20, 20)"
proof -
  have c: "count_nonzero [100, 0, 0, 0, 0, 0] < 4" by (simp add: count_nonzero_def)
  have n: "compute_anomaly_score example_profile [100, 0, 0, 0, 0, 0] = Inr None"
    using c by (simp add: compute_anomaly_score_def)
  have e: "is_enrolled example_profile" by (simp add: example_profile_def)
  have a: "snd (snd (authenticate example_profile [100, 0, 0, 0, 0, 0] still_location))
           = Inr [(''decision'', Str ''SKIP INTERVAL (low activity)''),
                  (''flags'', StrList [''Suspicious accuracy deviation''])]"
    unfolding authenticate_def by (simp add: e n ex_sparse_rules t1_result_def)
  have l: "last_login (fst (snd (authenticate example_profile [100, 0, 0, 0, 0, 0] moved_location))) = (20, 20)"
    by (simp add: authenticate_loc[OF e n] moved_location_def)
  show ?thesis
    using c a l unfolding example_profile_def still_location_def moved_location_def by simp
qed

section \<open>Tier 3 fusion\<close>

text \<open>
  Claim C2. Whenever the drift signal is obtained, Tier 3 returns a final score equal to
  \<open>0.5 * graphRisk + 0.2 * driftAnomaly + 0.3 * similarityRisk\<close>, with weights that sum
  to 1; the decision is BLOCK above 0.6, MANUAL REVIEW above 0.35 and up to 0.6, and
  PASS up to 0.35; the final score lies in [0, 1] when the three risks do; and the
  risks 0, 0 and 1 give the final score 0.3, a PASS.
\<close>

theorem t3_fusion:
  assumes d: "drift_anomaly_of M s uid v_test = Inr driftAnomaly"
    and g: "graphRisk = get_gnn_risk M s uid"
    and sr: "similarityRisk = 1 - similarity_engine M v_ref v_test"
    and f: "final = 0.5 * graphRisk + 0.2 * driftAnomaly + 0.3 * similarityRisk"
  shows "(\<exists>s' decision.
            t3_authenticate M s uid v_test v_ref =
              Inr (s', [(''decision'', Str decision), (''final_score'', Num final)])
            \<and> (final > 0.6 \<longrightarrow> decision = ''BLOCK - HIGH RISK'')
            \<and> (0.35 < final \<and> final \<le> 0.6 \<longrightarrow> decision = ''MANUAL REVIEW'')
            \<and> (final \<le> 0.35 \<longrightarrow> decision = ''PASS (T3 Verified)''))
         \<and> (0.5 + 0.2 + 0.3 = (1 :: real))
         \<and> (0 \<le> graphRisk \<and> graphRisk \<le> 1 \<and> 0 \<le> driftAnomaly \<and> driftAnomaly \<le> 1
              \<and> 0 \<le> similarityRisk \<and> similarityRisk \<le> 1 \<longrightarrow> 0 \<le> final \<and> final \<le> 1)
         \<and> (graphRisk = 0 \<and> driftAnomaly = 0 \<and> similarityRisk = 1 \<longrightarrow> final = 0.3 \<and> final \<le> 0.35)"
proof (intro conjI impI)
  define F where
    "F = get_gnn_risk M s uid * 0.5 + driftAnomaly * 0.2 + (1.0 - similarity_engine M v_ref v_test) * 0.3"
  have Ff: "F = final" unfolding F_def using g sr f by simp
  have "\<exists>s'. t3_authenticate M s uid v_test v_ref =
              Inr (s', [(''decision'', Str (if F > 0.6 then ''BLOCK - HIGH RISK''
                                           else if F > 0.35 then ''MANUAL REVIEW''
                                           else ''PASS (T3 Verified)'')),
                        (''final_score'', Num F)])"
    unfolding t3_authenticate_def Let_def F_def by (simp add: d)
  then show "\<exists>s' decision.
            t3_authenticate M s uid v_test v_ref =
              Inr (s', [(''decision'', Str decision), (''final_score'', Num final)])
            \<and> (final > 0.6 \<longrightarrow> decision = ''BLOCK - HIGH RISK'')
            \<and> (0.35 < final \<and> final \<le> 0.6 \<longrightarrow> decision = ''MANUAL REVIEW'')
            \<and> (final \<le> 0.35 \<longrightarrow> decision = ''PASS (T3 Verified)'')"
    unfolding Ff by auto
next
  show "0.5 + 0.2 + 0.3 = (1 :: real)" by simp
next
  assume "0 \<le> graphRisk \<and> graphRisk \<le> 1 \<and> 0 \<le> driftAnomaly \<and> driftAnomaly \<le> 1
              \<and> 0 \<le> similarityRisk \<and> similarityRisk \<le> 1"
  then show "0 \<le> final" "final \<le> 1" using f by auto
next
  assume "graphRisk = 0 \<and> driftAnomaly = 0 \<and> similarityRisk = 1"
  then show "final = 0.3" "final \<le> 0.35" using f by auto
qed

theorem t3_fusion_witness:
  "drift_anomaly_of example_models example_tier3 ''user_id_0'' [1, 1] = Inr 0
   \<and> get_gnn_risk example_models example_tier3 ''user_id_0'' = 0
   \<and> 1 - similarity_engine example_models [2, 2] [1, 1] = 1
   \<and> (\<exists>s'. t3_authenticate example_models example_tier3 ''user_id_0'' [1, 1] [2, 2] =
        Inr (s', [(''decision'', Str ''PASS (T3 Verified)''), (''final_score'', Num 0.3)]))"
proof -
  have g: "(0::real) = get_gnn_risk example_models example_tier3 ''user_id_0''"
    by (simp add: get_gnn_risk_def example_models_def example_tier3_def)
  have sr: "(1::real) = 1 - similarity_engine example_models [2, 2] [1, 1]"
    by (simp add: example_models_def)
  have f: "(0.3::real) = 0.5 * 0 + 0.2 * 0 + 0.3 * 1" by simp
  show ?thesis
    using t3_fusion[OF ex_drift g sr f] ex_drift g sr by auto
qed

section \<open>Tier 3 defaults\<close>

text \<open>
  Claim C7. For a user id unknown to the graph the graph risk is exactly 0.1. For a
  user without a stored history, or with fewer than 6 entries, the drift anomaly is
  exactly 0.1. With at least 6 entries (of one length) and a prediction of the test
  sample's length, the drift anomaly is the mean of the per-feature negative
  log-likelihood \<open>0.5 * (log_var + (x - mu)\<^sup>2 / exp log_var)\<close>, divided by 5 and
  clamped at 1.
\<close>

theorem t3_defaults:
  "(user_id_to_idx s uid = None \<longrightarrow> get_gnn_risk M s uid = 0.1)
   \<and> (user_history s uid = None \<longrightarrow> drift_anomaly_of M s uid v_test = Inr 0.1)
   \<and> (user_history s uid = Some h \<and> length h < 6 \<longrightarrow> drift_anomaly_of M s uid v_test = Inr 0.1)
   \<and> (user_history s uid = Some h \<and> 6 \<le> length h
        \<and> list_all (\<lambda>x. length x = length (hd h)) h
        \<and> drift_tracker M h = (mu, log_var)
        \<and> v_test \<noteq> [] \<and> length mu = length v_test \<and> length log_var = length v_test \<longrightarrow>
        drift_anomaly_of M s uid v_test =
          Inr (min (np_mean (map2 (\<lambda>x (m, lv). 0.5 * (lv + (x - m) ^ 2 / exp lv)) v_test (zip mu log_var))
                    / 5) 1))"
proof (intro conjI impI)
  assume "user_id_to_idx s uid = None"
  then show "get_gnn_risk M s uid = 0.1" by (simp add: get_gnn_risk_def)
next
  assume "user_history s uid = None"
  then show "drift_anomaly_of M s uid v_test = Inr 0.1" by (simp add: drift_anomaly_of_def)
next
  assume "user_history s uid = Some h \<and> length h < 6"
  then show "drift_anomaly_of M s uid v_test = Inr 0.1" by (simp add: drift_anomaly_of_def)
next
  assume a: "user_history s uid = Some h \<and> 6 \<le> length h
        \<and> list_all (\<lambda>x. length x = length (hd h)) h
        \<and> drift_tracker M h = (mu, log_var)
        \<and> v_test \<noteq> [] \<and> length mu = length v_test \<and> length log_var = length v_test"
  then have ne: "h \<noteq> []" and l: "length h > 5" by auto
  from a have n: "gaussian_nll mu log_var v_test =
           Inr (map2 (\<lambda>x (m, lv). 0.5 * (lv + (x - m) ^ 2 / exp lv)) v_test (zip mu log_var))"
    by (simp add: gaussian_nll_same_length)
  show "drift_anomaly_of M s uid v_test =
          Inr (min (np_mean (map2 (\<lambda>x (m, lv). 0.5 * (lv + (x - m) ^ 2 / exp lv)) v_test (zip mu log_var))
                    / 5) 1)"
    unfolding drift_anomaly_of_def using a ne l by (simp add: n)
qed

theorem t3_defaults_witness:
  "user_id_to_idx example_tier3 ''stranger'' = None
   \<and> get_gnn_risk example_models example_tier3 ''stranger'' = 0.1
   \<and> user_history example_tier3 ''stranger'' = None
   \<and> drift_anomaly_of example_models example_tier3 ''stranger'' [1, 1] = Inr 0.1
   \<and> user_history (enroll_user_history example_tier3 ''short'' (replicate 5 [1, 1])) ''short''
        = Some (replicate 5 [1, 1])
   \<and> drift_anomaly_of example_models (enroll_user_history example_tier3 ''short'' (replicate 5 [1, 1]))
        ''short'' [1, 1] = Inr 0.1
   \<and> user_history example_tier3 ''user_id_0'' = Some (replicate 6 [1, 1])
   \<and> drift_anomaly_of example_models example_tier3 ''user_id_0'' [3, 1] = Inr (1 / 5)"
proof -
  have a: "user_id_to_idx example_tier3 ''stranger'' = None"
    and b: "user_history example_tier3 ''stranger'' = None"
    and c: "user_history (enroll_user_history example_tier3 ''short'' (replicate 5 [1, 1])) ''short''
        = Some (replicate 5 [1, 1])"
    and d: "user_history example_tier3 ''user_id_0'' = Some (replicate 6 [1, 1])"
    and e: "drift_tracker example_models (replicate 6 [1, 1]) = ([1, 1], [0, 0])"
    by (simp_all add: example_tier3_def enroll_user_history_def deque20_def example_models_def)
  have m: "min (np_mean (map2 (\<lambda>x (m, lv). 0.5 * (lv + (x - m) ^ 2 / exp lv)) [3, 1] (zip [1, 1] [0, 0 :: real])) / 5) 1
            = 1 / 5"
    by (simp add: np_mean_def)
  show ?thesis
    using t3_defaults[of example_tier3 "''stranger''" example_models "[1, 1]"]
      t3_defaults[of "enroll_user_history example_tier3 ''short'' (replicate 5 [1, 1])" "''short''"
        example_models "[1, 1]" "replicate 5 [1, 1]"]
      t3_defaults[of example_tier3 "''user_id_0''" example_models "[3, 1]" "replicate 6 [1, 1]"
        "[1, 1]" "[0, 0]"]
      a b c d e m
    by (simp add: list_all_iff)
qed

section \<open>First contact\<close>




section \<open>Tier 2 threshold\<close>

text \<open>
  Claim C8. For every request on which Tier 1 returns the escalation to Tier 2, the
  context vector is built, and a similarity of at least 0.8 (0.8 included) is the
  terminal PASS of Tier 2 with the score attached, while a similarity below 0.8 hands
  the request to Tier 3, whose outcome (or exception) is the outcome of the request.
\<close>

theorem tier2_threshold:
  assumes en: "ensure_enrolled st req = Inr st1"
    and prof: "user_profiles st1 (user_id req) = Some t"
    and auth: "authenticate t (behavioral_vector req) (location_info req) = (t', loc', Inr res)"
    and dec: "map_of res ''decision'' = Some (Str ''ESCALATE TO T2 (Medium Anomaly)'')"
    and st2: "st2 = st1\<lparr>user_profiles := (user_profiles st1)(user_id req \<mapsto> t')\<rparr>"
  shows "\<exists>r ctx. D_ref t = Some r
           \<and> create_context_vector (Some r) (behavioral_vector req) (request_age req)
                 (dict_get res ''score'' (Num 1.5)) loc' = Inr ctx
           \<and> (t2_model M (scaler M r) (scaler M (behavioral_vector req)) ctx \<ge> 0.8 \<longrightarrow>
                authenticate_session M st req =
                  (st2, loc',
                   Inr [(''tier'', Str ''T2''), (''decision'', Str ''PASS''),
                        (''score'', Num (t2_model M (scaler M r) (scaler M (behavioral_vector req)) ctx))]))
           \<and> (t2_model M (scaler M r) (scaler M (behavioral_vector req)) ctx < 0.8 \<longrightarrow>
                authenticate_session M st req =
                  (case t3_authenticate M (t3 st2) (user_id req) (behavioral_vector req) r of
                     Inl e \<Rightarrow> (st2, loc', Inl e)
                   | Inr (s', final_t3) \<Rightarrow>
                       (st2\<lparr>t3 := s'\<rparr>, loc', Inr ((''tier'', Str ''T3'') # final_t3))))"
proof -
  let ?v = "behavioral_vector req"
  from authenticate_T2_inv[OF auth dec] obtain score z fl where
    sc: "compute_anomaly_score t ?v = Inr (Some (score, z))"
    and res: "res = t1_result ''ESCALATE TO T2 (Medium Anomaly)'' fl"
    by blast
  from compute_Some_shapes[OF sc] obtain r where
    r: "D_ref t = Some r" and lr: "length r = length ?v \<or> length r = 1"
    by blast
  from lr obtain d where d: "np_binop (-) r ?v = Inr d"
    using np_binop_ok[of r ?v "(-)"] by auto
  let ?ctx = "[linalg_norm d / (linalg_norm r + 1 / 10 ^ 8), real_of_int (request_age req) / 100, 1.5,
               (if (case is_traveling loc' of None \<Rightarrow> False | Some b \<Rightarrow> b) then 1 else 0), 0]"
  have cv: "create_context_vector (Some r) ?v (request_age req) (dict_get res ''score'' (Num 1.5)) loc'
              = Inr ?ctx"
    unfolding res t1_result_score create_context_vector_def by (simp add: d Let_def)
  note s = session_T2_dispatch[OF en prof auth[unfolded res], of M, unfolded escalate_t2_result[OF r d], folded st2]
  have hi: "t2_model M (scaler M r) (scaler M ?v) ?ctx \<ge> 0.8 \<longrightarrow>
                authenticate_session M st req =
                  (st2, loc',
                   Inr [(''tier'', Str ''T2''), (''decision'', Str ''PASS''),
                        (''score'', Num (t2_model M (scaler M r) (scaler M ?v) ?ctx))])"
    using s by (simp add: Let_def)
  have lo: "t2_model M (scaler M r) (scaler M ?v) ?ctx < 0.8 \<longrightarrow>
                authenticate_session M st req =
                  (case t3_authenticate M (t3 st2) (user_id req) ?v r of
                     Inl e \<Rightarrow> (st2, loc', Inl e)
                   | Inr (s', final_t3) \<Rightarrow>
                       (st2\<lparr>t3 := s'\<rparr>, loc', Inr ((''tier'', Str ''T3'') # final_t3)))"
    using s by (auto simp: Let_def split: sum.splits)
  show ?thesis using r cv hi lo by blast
qed

theorem tier2_threshold_witness:
  "ensure_enrolled example_orchestrator example_request = Inr example_orchestrator
   \<and> user_profiles example_orchestrator (user_id example_request) = Some example_profile
   \<and> authenticate example_profile (behavioral_vector example_request) (location_info example_request) =
       (example_profile\<lparr>idle_count := 0\<rparr>, still_location,
        Inr (t1_result ''ESCALATE TO T2 (Medium Anomaly)'' []))
   \<and> map_of (t1_result ''ESCALATE TO T2 (Medium Anomaly)'' []) ''decision''
       = Some (Str ''ESCALATE TO T2 (Medium Anomaly)'')
   \<and> snd (snd (authenticate_session example_models example_orchestrator example_request)) =
       Inr [(''tier'', Str ''T2''), (''decision'', Str ''PASS''), (''score'', Num 0.8)]"
proof -
  have m: "\<And>r v c. t2_model example_models r v c = 0.8" by (simp add: example_models_def)
  show ?thesis
    using tier2_threshold[OF ex_session_enrolled ex_auth_T2 t1_result_decision refl, of example_models]
      ex_session_enrolled ex_auth_T2
    by (auto simp: m t1_result_decision)
qed

section \<open>The Tier 1 score in the context vector\<close>

text \<open>
  Claim C6. Tier 1 returns a dictionary with the keys \<open>decision\<close> and \<open>flags\<close> only, so
  \<open>t1_result.get('score', 1.5)\<close> is always the default. For an enrolled user whose
  sample lies 0.02 above the reference in every feature, Tier 1 computes the score
  2000000/1000001 and escalates to Tier 2; a Tier 2 scorer that returns the third
  element of the context vector it is handed returns 1.5, the default, not the score
  Tier 1 computed.
\<close>

theorem context_vector_ignores_t1_score:
  "compute_anomaly_score
      \<lparr>age = 30, alpha_mean = 0.05, alpha_std = 0.02, D_ref = Some [1, 1, 1, 1, 1, 1],
       D_std = Some [0.01, 0.01, 0.01, 0.01, 0.01, 0.01], is_enrolled = True,
       idle_count = 2, idle_threshold = 3\<rparr>
      [1.02, 1.02, 1.02, 1.02, 1.02, 1.02]
     = Inr (Some (2000000 / 1000001,
                  [2000000 / 1000001, 2000000 / 1000001, 2000000 / 1000001,
                   2000000 / 1000001, 2000000 / 1000001, 2000000 / 1000001]))
   \<and> snd (snd (authenticate_session
        \<lparr>gnn_probs = (\<lambda>i. 0), drift_tracker = (\<lambda>h. ([1, 1], [0, 0])),
         similarity_engine = (\<lambda>r v. 0), t2_model = (\<lambda>r v c. c ! 2), scaler = (\<lambda>v. v)\<rparr>
        \<lparr>user_profiles = [''user_id_0'' \<mapsto>
            \<lparr>age = 30, alpha_mean = 0.05, alpha_std = 0.02, D_ref = Some [1, 1, 1, 1, 1, 1],
             D_std = Some [0.01, 0.01, 0.01, 0.01, 0.01, 0.01], is_enrolled = True,
             idle_count = 2, idle_threshold = 3\<rparr>],
         t3 = \<lparr>user_id_to_idx = [''user_id_0'' \<mapsto> 0],
               user_history = [''user_id_0'' \<mapsto> replicate 6 [1, 1]]\<rparr>\<rparr>
        \<lparr>user_id = ''user_id_0'', request_age = 30,
         behavioral_vector = [1.02, 1.02, 1.02, 1.02, 1.02, 1.02],
         location_info = \<lparr>last_login = (0, 0), current_session = (0, 0), prev_30s = (0, 0),
                           latest_30s = (0, 0), is_traveling = None\<rparr>\<rparr>))
     = Inr [(''tier'', Str ''T2''), (''decision'', Str ''PASS''), (''score'', Num 1.5)]"
proof -
  have v: "behavioral_vector example_request = [1.02, 1.02, 1.02, 1.02, 1.02, 1.02]"
    by (simp add: example_request_def)
  show ?thesis
    using ex_score_T2[unfolded v] ex_session_observed
    unfolding example_profile_def example_orchestrator_def example_request_def example_tier3_def
      observing_models_def still_location_def
    by simp
qed

end
